theory Spec2Isabelle
  imports Complex_Main
begin

section \<open>Values of numpy's float arrays\<close>

text \<open>
  The notebook computes with numpy arrays of IEEE doubles. A division by zero, or the
  logarithm of zero, does not raise there: it yields an infinity or a NaN and the
  computation goes on. The model keeps these special values and takes the finite doubles
  as real numbers (rounding, and overflow inside numpy's operations, are not modelled;
  the sign of a zero is not modelled either: every zero divisor this program can form is
  \<open>+0.0\<close>). Python's own float power, which raises when it overflows, is modelled with
  the run below.
\<close>

datatype npfloat = Fin real | PInf | NInf | NaN

text \<open>The infinity with the sign of \<open>s\<close>; NaN for \<open>s = 0\<close> (\<open>0 * inf\<close>, \<open>0 / 0\<close>).\<close>

definition signed_inf :: "real \<Rightarrow> npfloat" where
  "signed_inf s = (if 0 < s then PInf else if s < 0 then NInf else NaN)"

fun np_neg :: "npfloat \<Rightarrow> npfloat" where
  "np_neg (Fin a) = Fin (- a)"
| "np_neg PInf = NInf"
| "np_neg NInf = PInf"
| "np_neg NaN = NaN"

fun np_add :: "npfloat \<Rightarrow> npfloat \<Rightarrow> npfloat" where
  "np_add (Fin a) (Fin b) = Fin (a + b)"
| "np_add NaN _ = NaN"
| "np_add _ NaN = NaN"
| "np_add PInf NInf = NaN"
| "np_add NInf PInf = NaN"
| "np_add PInf _ = PInf"
| "np_add _ PInf = PInf"
| "np_add NInf _ = NInf"
| "np_add _ NInf = NInf"

definition np_sub :: "npfloat \<Rightarrow> npfloat \<Rightarrow> npfloat" where
  "np_sub a b = np_add a (np_neg b)"

fun np_mul :: "npfloat \<Rightarrow> npfloat \<Rightarrow> npfloat" where
  "np_mul (Fin a) (Fin b) = Fin (a * b)"
| "np_mul NaN _ = NaN"
| "np_mul _ NaN = NaN"
| "np_mul PInf (Fin b) = signed_inf b"
| "np_mul (Fin a) PInf = signed_inf a"
| "np_mul NInf (Fin b) = signed_inf (- b)"
| "np_mul (Fin a) NInf = signed_inf (- a)"
| "np_mul PInf PInf = PInf"
| "np_mul PInf NInf = NInf"
| "np_mul NInf PInf = NInf"
| "np_mul NInf NInf = PInf"

text \<open>
  Division. A finite value over zero is an infinity with the sign of the dividend
  (\<open>0 / 0\<close> is NaN); a finite value over an infinity is zero.
\<close>

fun np_div :: "npfloat \<Rightarrow> npfloat \<Rightarrow> npfloat" where
  "np_div (Fin a) (Fin b) = (if b = 0 then signed_inf a else Fin (a / b))"
| "np_div NaN _ = NaN"
| "np_div _ NaN = NaN"
| "np_div (Fin a) PInf = Fin 0"
| "np_div (Fin a) NInf = Fin 0"
| "np_div PInf (Fin b) = (if 0 \<le> b then PInf else NInf)"
| "np_div NInf (Fin b) = (if 0 \<le> b then NInf else PInf)"
| "np_div _ _ = NaN"

text \<open>Comparison \<open><\<close>: false as soon as one side is NaN.\<close>

fun np_less :: "npfloat \<Rightarrow> npfloat \<Rightarrow> bool" where
  "np_less (Fin a) (Fin b) = (a < b)"
| "np_less NaN _ = False"
| "np_less _ NaN = False"
| "np_less _ NInf = False"
| "np_less PInf _ = False"
| "np_less NInf _ = True"
| "np_less _ PInf = True"

text \<open>\<open>np.maximum\<close>: the larger value; NaN as soon as one side is NaN.\<close>

fun np_maximum :: "npfloat \<Rightarrow> npfloat \<Rightarrow> npfloat" where
  "np_maximum NaN _ = NaN"
| "np_maximum _ NaN = NaN"
| "np_maximum a b = (if np_less a b then b else a)"

text \<open>\<open>np.log\<close> of a finite double: \<open>-inf\<close> at zero, NaN below.\<close>

definition np_log :: "real \<Rightarrow> npfloat" where
  "np_log u = (if 0 < u then Fin (ln u) else if u = 0 then NInf else NaN)"

text \<open>\<open>a ** 2\<close>.\<close>

fun np_square :: "npfloat \<Rightarrow> npfloat" where
  "np_square (Fin a) = Fin (a\<^sup>2)"
| "np_square NaN = NaN"
| "np_square _ = PInf"

text \<open>
  \<open>a ** 0.5\<close>, the square root. In \<open>dist\<close> its argument is a sum of squares, which is
  never negative and never \<open>-inf\<close>.
\<close>

fun np_sqrt :: "npfloat \<Rightarrow> npfloat" where
  "np_sqrt (Fin a) = (if 0 \<le> a then Fin (sqrt a) else NaN)"
| "np_sqrt PInf = PInf"
| "np_sqrt _ = NaN"

section \<open>The distance matrix\<close>

text \<open>
  \<^verbatim>\<open>
  def dist(x,y):
      dx = x[..., np.newaxis] - x[np.newaxis, ...]
      dy = y[..., np.newaxis] - y[np.newaxis, ...]
      d = np.array([dx,dy])
      return (d**2).sum(axis=0)**0.5
  \<close>
  \<open>dx[i,j] = x[i] - x[j]\<close> and \<open>dy[i,j] = y[i] - y[j]\<close>; the result is the matrix of
  \<open>(dx[i,j]**2 + dy[i,j]**2) ** 0.5\<close>, a list of rows. The simulation calls it on two
  arrays of the same length \<open>N\<close>; for arrays of different lengths (where numpy cannot
  stack \<open>dx\<close> and \<open>dy\<close>) the model pairs the coordinates up to the shorter length.
  The name \<open>dist\<close> is HOL's metric, hence \<open>dist_matrix\<close> here.
\<close>

definition dist_matrix :: "npfloat list \<Rightarrow> npfloat list \<Rightarrow> npfloat list list" where
  "dist_matrix x y =
     map (\<lambda>(xi, yi).
          map (\<lambda>(xj, yj).
               np_sqrt (np_add (np_square (np_sub xi xj)) (np_square (np_sub yi yj))))
              (zip x y))
         (zip x y)"

section \<open>Parameters, arrays and the random generator\<close>

text \<open>
  The parameter cell: \<open>N\<close> and \<open>EndTime\<close> are Python integers, the others floats.
\<close>

record config =
  N :: int
  Length :: real
  EndTime :: int
  P1 :: real
  P2 :: real
  P3 :: real
  D1 :: real
  D2 :: real

text \<open>
  \<open>np.random.rand(n)\<close> returns the next \<open>n\<close> doubles of numpy's global generator,
  each in \<open>[0, 1)\<close>, and advances it. The generator is the sequence of doubles it still
  has to return, which its seed fixes.
\<close>

type_synonym generator = "nat \<Rightarrow> real"

definition rand :: "nat \<Rightarrow> generator \<Rightarrow> real list \<times> generator" where
  "rand n g = (map g [0..<n], \<lambda>k. g (k + n))"


text \<open>
  \<open>Diagonal = np.zeros((N,N)); np.fill_diagonal(Diagonal, 1)\<close>: the identity matrix.
  Its entries, like the neighbour counts below, are always finite, so they are reals.
\<close>

definition Diagonal :: "nat \<Rightarrow> real list list" where
  "Diagonal n = map (\<lambda>i. map (\<lambda>j. if i = j then 1 else 0) [0..<n]) [0..<n]"

text \<open>
  The variables of the notebook that the loop reads and writes: the positions \<open>X\<close>,
  \<open>Y\<close>, the histories \<open>Xs\<close>, \<open>Ys\<close> (\<open>N\<close> rows, one column per timestep) and the
  generator. \<open>Distance\<close>, \<open>Stepsize\<close> and \<open>Angle\<close> are assigned afresh in every
  iteration before they are read.
\<close>

record state =
  X :: "npfloat list"
  Y :: "npfloat list"
  Xs :: "npfloat list list"
  Ys :: "npfloat list list"
  gen :: generator

text \<open>
  The array declarations and the storage variables:
  \<^verbatim>\<open>
  X=np.random.rand(N)*Length
  Y=np.random.rand(N)*Length
  Xs=np.zeros((N,EndTime))
  Ys=np.zeros((N,EndTime))
  \<close>
\<close>

definition init :: "config \<Rightarrow> generator \<Rightarrow> state" where
  "init c g =
     (let n = nat (N c);
          (u, g1) = rand n g;
          (v, g2) = rand n g1
      in \<lparr> X = map (\<lambda>r. Fin (r * Length c)) u,
           Y = map (\<lambda>r. Fin (r * Length c)) v,
           Xs = replicate n (replicate (nat (EndTime c)) (Fin 0)),
           Ys = replicate n (replicate (nat (EndTime c)) (Fin 0)),
           gen = g2 \<rparr>)"

section \<open>One timestep\<close>

text \<open>
  \<open>Nr_In_Dist1 = (Distance<D1)*1.0-Diagonal\<close>, entry by entry.
\<close>

definition Nr_In_Dist :: "real \<Rightarrow> npfloat list list \<Rightarrow> real list list \<Rightarrow> real list list" where
  "Nr_In_Dist D Distance Diag =
     map2 (map2 (\<lambda>d g. of_bool (np_less d (Fin D)) * 1 - g)) Distance Diag"

text \<open>\<open>.sum(axis=0)\<close> of a matrix with \<open>n\<close> columns: entry \<open>j\<close> sums column \<open>j\<close>.\<close>

definition sum_axis0 :: "nat \<Rightarrow> real list list \<Rightarrow> real list" where
  "sum_axis0 n M = map (\<lambda>j. \<Sum>row\<leftarrow>M. row ! j) [0..<n]"

text \<open>
  \<open>Density_In_Dist1 = Nr_In_Dist1.sum(axis=0)/(D1**2*np.pi)\<close>, from the positions.
\<close>

definition Density_In_Dist :: "real \<Rightarrow> nat \<Rightarrow> npfloat list \<Rightarrow> npfloat list \<Rightarrow> npfloat list" where
  "Density_In_Dist D n x y =
     map (\<lambda>s. np_div (Fin s) (Fin (D\<^sup>2 * pi)))
         (sum_axis0 n (Nr_In_Dist D (dist_matrix x y) (Diagonal n)))"

text \<open>
  \<open>Beta = 1/(np.maximum(0.001,P1*Density_In_Dist1+P2*Density_In_Dist2)+P3)\<close>
\<close>

definition Beta :: "config \<Rightarrow> npfloat list \<Rightarrow> npfloat list \<Rightarrow> npfloat list" where
  "Beta c x y =
     map2 (\<lambda>d1 d2.
            np_div (Fin 1)
              (np_add (np_maximum (Fin 0.001)
                         (np_add (np_mul (Fin (P1 c)) d1) (np_mul (Fin (P2 c)) d2)))
                      (Fin (P3 c))))
          (Density_In_Dist (D1 c) (nat (N c)) x y)
          (Density_In_Dist (D2 c) (nat (N c)) x y)"

text \<open>
  \<open>Stepsize = - Beta * np.log(np.random.rand(N))\<close> and, with the draws after those,
  \<open>Angle = np.random.rand(N)*360.0\<close>.
\<close>

definition Stepsize :: "config \<Rightarrow> state \<Rightarrow> npfloat list" where
  "Stepsize c s =
     map2 (\<lambda>b u. np_mul (np_neg b) (np_log u))
          (Beta c (X s) (Y s)) (fst (rand (nat (N c)) (gen s)))"

definition Angle :: "config \<Rightarrow> state \<Rightarrow> real list" where
  "Angle c s =
     map (\<lambda>u. u * 360) (fst (rand (nat (N c)) (snd (rand (nat (N c)) (gen s)))))"

text \<open>
  The displacements \<open>np.sin(Angle/180.0*np.pi)*Stepsize\<close> and
  \<open>np.cos(Angle/180.0*np.pi)*Stepsize\<close> that are added to \<open>X\<close> and \<open>Y\<close>.
\<close>

definition move_x :: "config \<Rightarrow> state \<Rightarrow> npfloat list" where
  "move_x c s = map2 (\<lambda>a st. np_mul (Fin (sin (a / 180 * pi))) st) (Angle c s) (Stepsize c s)"

definition move_y :: "config \<Rightarrow> state \<Rightarrow> npfloat list" where
  "move_y c s = map2 (\<lambda>a st. np_mul (Fin (cos (a / 180 * pi))) st) (Angle c s) (Stepsize c s)"



text \<open>
  The boundary condition on one coordinate, \<open>X + Length*(X<0) - Length*(X>Length)\<close>:
  both comparisons read the coordinate before the correction.
\<close>

definition boundary :: "real \<Rightarrow> npfloat \<Rightarrow> npfloat" where
  "boundary L x =
     np_sub (np_add x (Fin (L * of_bool (np_less x (Fin 0)))))
            (Fin (L * of_bool (np_less (Fin L) x)))"

text \<open>\<open>Xs[:,Time]=X\<close>: column \<open>Time\<close> of the history becomes the position array.\<close>

definition set_column :: "nat \<Rightarrow> 'a list \<Rightarrow> 'a list list \<Rightarrow> 'a list list" where
  "set_column t v M = map2 (\<lambda>row a. row[t := a]) M v"

text \<open>The assignments of the body of \<open>for Time in range(EndTime)\<close>.\<close>

definition step :: "config \<Rightarrow> state \<Rightarrow> nat \<Rightarrow> state" where
  "step c s Time =
     (let X1 = map2 np_add (X s) (move_x c s);
          Y1 = map2 np_add (Y s) (move_y c s);
          X2 = map (boundary (Length c)) X1;
          Y2 = map (boundary (Length c)) Y1
      in \<lparr> X = X2, Y = Y2,
           Xs = set_column Time X2 (Xs s),
           Ys = set_column Time Y2 (Ys s),
           gen = snd (rand (nat (N c)) (snd (rand (nat (N c)) (gen s)))) \<rparr>)"

section \<open>The run\<close>

text \<open>
  The engine is the cell of array declarations, \<open>dist\<close> and the main loop; the cells of
  graphical parameters and of plots only prepare and show pictures. Nothing there checks
  a parameter. Two operations of the engine can raise:
  \<^item> \<open>np.zeros\<close> and \<open>np.random.rand\<close> raise \<open>ValueError\<close> (negative dimensions) for a
    negative \<open>N\<close>, and \<open>np.zeros((N,EndTime))\<close> for a negative \<open>EndTime\<close>;
  \<^item> \<open>D1**2\<close> and \<open>D2**2\<close> are powers of Python floats, which raise \<open>OverflowError\<close>
    when the result is too large for a double, that is when the square rounds to
    infinity: from \<open>2^1024 - 2^970\<close> on, for a radius of magnitude above about
    \<open>1.34e154\<close>. The loop body evaluates them in every iteration.

  Everything else is numpy arithmetic, which warns and goes on. Exhausted memory for a
  huge \<open>N\<close> is not modelled.
\<close>

datatype error = ValueError | OverflowError

definition pow2_overflows :: "real \<Rightarrow> bool" where
  "pow2_overflows D = (2 ^ 1024 - 2 ^ 970 \<le> D\<^sup>2)"

text \<open>One iteration of the loop: it raises, or it makes the assignments of \<open>step\<close>.\<close>

definition body :: "config \<Rightarrow> state \<Rightarrow> nat \<Rightarrow> error + state" where
  "body c s Time =
     (if pow2_overflows (D1 c) \<or> pow2_overflows (D2 c) then Inl OverflowError
      else Inr (step c s Time))"

text \<open>The loop over the timesteps stops at the first iteration that raises.\<close>

fun loop :: "config \<Rightarrow> state \<Rightarrow> nat list \<Rightarrow> error + state" where
  "loop c s [] = Inr s"
| "loop c s (Time # rest) =
     (case body c s Time of Inl e \<Rightarrow> Inl e | Inr s' \<Rightarrow> loop c s' rest)"

definition run :: "config \<Rightarrow> generator \<Rightarrow> error + state" where
  "run c g =
     (if N c < 0 \<or> EndTime c < 0 then Inl ValueError
      else loop c (init c g) [0..<nat (EndTime c)])"

text \<open>
  The state that the first \<open>k\<close> iterations leave when none of them raises.
\<close>

definition after :: "config \<Rightarrow> generator \<Rightarrow> nat \<Rightarrow> state" where
  "after c g k = foldl (step c) (init c g) [0..<k]"

section \<open>The specification's formula and concrete inputs\<close>

text \<open>
  The scale parameter as the specification words it, to compare with \<open>Beta\<close>:
  \<open>\<beta> = 1 / max(0.001, P1\<cdot>density_D1 + P2\<cdot>density_D2 + P3)\<close>.
\<close>

definition Beta_spec :: "config \<Rightarrow> npfloat list \<Rightarrow> npfloat list \<Rightarrow> npfloat list" where
  "Beta_spec c x y =
     map2 (\<lambda>d1 d2.
            np_div (Fin 1)
              (np_maximum (Fin 0.001)
                 (np_add (np_add (np_mul (Fin (P1 c)) d1) (np_mul (Fin (P2 c)) d2))
                         (Fin (P3 c)))))
          (Density_In_Dist (D1 c) (nat (N c)) x y)
          (Density_In_Dist (D2 c) (nat (N c)) x y)"

text \<open>The notebook's parameter cell.\<close>

definition notebook_config :: config where
  "notebook_config =
     \<lparr> N = 2000, Length = 50, EndTime = 300,
       P1 = 100, P2 = - 80, P3 = 3, D1 = 2, D2 = 6 \<rparr>"

text \<open>A generator that returns the listed doubles and then \<open>0.5\<close> for ever.\<close>

definition draws :: "real list \<Rightarrow> generator" where
  "draws us k = (if k < length us then us ! k else 1 / 2)"

text \<open>A one-agent variant of it in a domain of side 10, for concrete runs.\<close>

definition small_config :: config where
  "small_config = notebook_config\<lparr>N := 1, Length := 10, EndTime := 2, P3 := 999 / 1000\<rparr>"

section \<open>Properties\<close>

subsection \<open>The distance matrix\<close>

lemma np_square_neg: "np_square (np_neg a) = np_square a"
  by (cases a) simp_all

lemma np_neg_sub: "np_neg (np_sub a b) = np_sub b a"
  by (cases a; cases b) (simp_all add: np_sub_def)

lemma np_square_sub_commute: "np_square (np_sub a b) = np_square (np_sub b a)"
  by (metis np_neg_sub np_square_neg)

lemma dist_nth:
  assumes "i < length x" "i < length y" "j < length x" "j < length y"
  shows "dist_matrix x y ! i ! j =
    np_sqrt (np_add (np_square (np_sub (x ! i) (x ! j))) (np_square (np_sub (y ! i) (y ! j))))"
  using assms by (simp add: dist_matrix_def)

lemma length_dist: "length (dist_matrix x y) = min (length x) (length y)"
  by (simp add: dist_matrix_def)

text \<open>
  C8. For position arrays \<open>X\<close>, \<open>Y\<close> of the same length and indices \<open>i\<close>, \<open>j\<close> in
  range, the matrix returned by \<open>dist\<close> is symmetric, \<open>d[i,j] = d[j,i]\<close>, and for
  positions that are finite numbers its diagonal is zero, \<open>d[i,i] = 0\<close>.
\<close>

theorem dist_symmetric_zero_diagonal:
  assumes "length xs = length ys" and "i < length xs" and "j < length xs"
  shows "dist_matrix (map Fin xs) (map Fin ys) ! i ! j = dist_matrix (map Fin xs) (map Fin ys) ! j ! i
       \<and> dist_matrix (map Fin xs) (map Fin ys) ! i ! i = Fin 0"
  using assms by (simp add: dist_nth np_sub_def power2_commute)

theorem dist_symmetric_zero_diagonal_witness:
  "dist_matrix (map Fin [0, 3]) (map Fin [0, 4]) ! 0 ! 1 = dist_matrix (map Fin [0, 3]) (map Fin [0, 4]) ! 1 ! 0
 \<and> dist_matrix (map Fin [0, 3]) (map Fin [0, 4]) ! 0 ! 0 = Fin 0"
  using dist_symmetric_zero_diagonal [of "[0, 3]" "[0, 4]" 0 1] by simp

subsection \<open>Neighbour counts and densities\<close>

lemma length_Diagonal: "length (Diagonal n) = n"
  by (simp add: Diagonal_def)

lemma Diagonal_nth: "i < n \<Longrightarrow> j < n \<Longrightarrow> Diagonal n ! i ! j = (if i = j then 1 else 0)"
  by (simp add: Diagonal_def)

lemma Diagonal_row_length: "i < n \<Longrightarrow> length (Diagonal n ! i) = n"
  by (simp add: Diagonal_def)

lemma dist_row_length:
  "i < length x \<Longrightarrow> i < length y \<Longrightarrow> length (dist_matrix x y ! i) = min (length x) (length y)"
  by (simp add: dist_matrix_def)

lemma Nr_In_Dist_nth:
  assumes "length x = n" "length y = n" "i < n" "j < n"
  shows "Nr_In_Dist D (dist_matrix x y) (Diagonal n) ! i ! j =
         of_bool (np_less (dist_matrix x y ! i ! j) (Fin D)) - (if i = j then 1 else 0)"
  using assms
  by (simp add: Nr_In_Dist_def length_dist length_Diagonal dist_row_length
      Diagonal_row_length Diagonal_nth)

lemma length_Nr_In_Dist:
  "length x = n \<Longrightarrow> length y = n \<Longrightarrow> length (Nr_In_Dist D (dist_matrix x y) (Diagonal n)) = n"
  by (simp add: Nr_In_Dist_def length_dist length_Diagonal)

lemma sum_axis0_nth:
  assumes "length M = n" "j < m"
  shows "sum_axis0 m M ! j = (\<Sum>i = 0..<n. M ! i ! j)"
proof -
  have "(\<Sum>row\<leftarrow>M. row ! j) =
        (\<Sum>i = 0..<length (map (\<lambda>row. row ! j) M). map (\<lambda>row. row ! j) M ! i)"
    by (rule sum_list_sum_nth)
  also have "\<dots> = (\<Sum>i = 0..<n. M ! i ! j)"
    using assms(1) by (intro sum.cong) auto
  finally show ?thesis
    using assms(2) by (simp add: sum_axis0_def)
qed

lemma Nr_sum_nth:
  assumes "length x = n" "length y = n" "j < n"
  shows "sum_axis0 n (Nr_In_Dist D (dist_matrix x y) (Diagonal n)) ! j =
         real (card {i. i < n \<and> np_less (dist_matrix x y ! i ! j) (Fin D)}) - 1"
proof -
  let ?P = "\<lambda>i. np_less (dist_matrix x y ! i ! j) (Fin D)"
  have "sum_axis0 n (Nr_In_Dist D (dist_matrix x y) (Diagonal n)) ! j =
        (\<Sum>i = 0..<n. Nr_In_Dist D (dist_matrix x y) (Diagonal n) ! i ! j)"
    using assms by (simp add: sum_axis0_nth length_Nr_In_Dist)
  also have "\<dots> = (\<Sum>i = 0..<n. of_bool (?P i) - (if j = i then 1 else 0))"
    using assms by (intro sum.cong) (auto simp add: Nr_In_Dist_nth)
  also have "\<dots> = (\<Sum>i = 0..<n. of_bool (?P i)) - (\<Sum>i = 0..<n. if j = i then 1 else 0)"
    by (simp add: sum_subtractf)
  also have "(\<Sum>i = 0..<n. if j = i then 1 else 0) = (1::real)"
    using assms(3) by (simp add: sum.delta')
  also have "(\<Sum>i = 0..<n. of_bool (?P i)) = real (card ({0..<n} \<inter> {i. ?P i}))"
    by (simp add: sum_of_bool_eq)
  also have "{0..<n} \<inter> {i. ?P i} = {i. i < n \<and> ?P i}"
    by auto
  finally show ?thesis .
qed


lemma length_Density_In_Dist: "length (Density_In_Dist D n x y) = n"
  by (simp add: Density_In_Dist_def sum_axis0_def)

lemma Density_In_Dist_nth:
  "j < n \<Longrightarrow> Density_In_Dist D n x y ! j =
     np_div (Fin (sum_axis0 n (Nr_In_Dist D (dist_matrix x y) (Diagonal n)) ! j)) (Fin (D\<^sup>2 * pi))"
  by (simp add: Density_In_Dist_def sum_axis0_def)


text \<open>
  C6. For agents at finite positions, an agent \<open>i\<close> and a radius \<open>D > 0\<close> (\<open>D1\<close> or
  \<open>D2\<close>), the local density of \<open>i\<close> is the number of other agents \<open>j \<noteq> i\<close> whose
  Euclidean distance to \<open>i\<close> is strictly less than \<open>D\<close>, divided by the disk area
  \<open>\<pi>\<cdot>D\<^sup>2\<close>; the agent itself is not counted.
\<close>

theorem density_counts_neighbours:
  assumes "0 < D" "length xs = n" "length ys = n" "i < n"
  shows "Density_In_Dist D n (map Fin xs) (map Fin ys) ! i =
         Fin (real (card {j. j < n \<and> j \<noteq> i \<and>
                  sqrt ((xs ! j - xs ! i)\<^sup>2 + (ys ! j - ys ! i)\<^sup>2) < D}) / (D\<^sup>2 * pi))"
proof -
  let ?d = "\<lambda>j. sqrt ((xs ! j - xs ! i)\<^sup>2 + (ys ! j - ys ! i)\<^sup>2)"
  let ?A = "{j. j < n \<and> np_less (dist_matrix (map Fin xs) (map Fin ys) ! j ! i) (Fin D)}"
  have A: "?A = {j. j < n \<and> ?d j < D}"
    using assms by (auto simp add: dist_nth np_sub_def)
  have ins: "{j. j < n \<and> ?d j < D} = insert i {j. j < n \<and> j \<noteq> i \<and> ?d j < D}"
    using assms by auto
  have "card (insert i {j. j < n \<and> j \<noteq> i \<and> ?d j < D}) =
        Suc (card {j. j < n \<and> j \<noteq> i \<and> ?d j < D})"
    by (rule card_insert_disjoint) simp_all
  with ins have "card {j. j < n \<and> ?d j < D} = Suc (card {j. j < n \<and> j \<noteq> i \<and> ?d j < D})"
    by simp
  then have "sum_axis0 n (Nr_In_Dist D (dist_matrix (map Fin xs) (map Fin ys)) (Diagonal n)) ! i
       = real (card {j. j < n \<and> j \<noteq> i \<and> ?d j < D})"
    using assms by (simp add: Nr_sum_nth A)
  then show ?thesis
    using assms by (simp add: Density_In_Dist_nth)
qed

theorem density_counts_neighbours_witness:
  "Density_In_Dist 2 3 (map Fin [0, 1, 5]) (map Fin [0, 0, 0]) ! 0 = Fin (1 / (2\<^sup>2 * pi))"
proof -
  have "{j. j < 3 \<and> j \<noteq> 0 \<and>
          sqrt (([0, 1, 5] ! j - [0, 1, 5] ! 0)\<^sup>2 + ([0, 0, 0] ! j - [0, 0, 0] ! 0)\<^sup>2) < (2::real)}
        = {1::nat}"
    by (auto simp add: less_Suc_eq numeral_3_eq_3)
  then show ?thesis
    using density_counts_neighbours [of 2 "[0, 1, 5]" 3 "[0, 0, 0]" 0] by simp
qed

subsection \<open>The shape of the arrays during a run\<close>

lemma rand_fst: "fst (rand n g) = map g [0..<n]"
  by (simp add: rand_def)

lemma rand_snd: "snd (rand n g) = (\<lambda>k. g (k + n))"
  by (simp add: rand_def)

lemma length_Beta: "length (Beta c x y) = nat (N c)"
  by (simp add: Beta_def length_Density_In_Dist)

lemma length_Stepsize: "length (Stepsize c s) = nat (N c)"
  by (simp add: Stepsize_def length_Beta rand_fst)

lemma length_Angle: "length (Angle c s) = nat (N c)"
  by (simp add: Angle_def rand_fst)

lemma length_move_x: "length (move_x c s) = nat (N c)"
  by (simp add: move_x_def length_Angle length_Stepsize)

lemma length_move_y: "length (move_y c s) = nat (N c)"
  by (simp add: move_y_def length_Angle length_Stepsize)

lemma X_step: "X (step c s t) = map (boundary (Length c)) (map2 np_add (X s) (move_x c s))"
  by (simp add: step_def Let_def)

lemma Y_step: "Y (step c s t) = map (boundary (Length c)) (map2 np_add (Y s) (move_y c s))"
  by (simp add: step_def Let_def)

lemma Xs_step: "Xs (step c s t) = set_column t (X (step c s t)) (Xs s)"
  by (simp add: step_def Let_def)

lemma Ys_step: "Ys (step c s t) = set_column t (Y (step c s t)) (Ys s)"
  by (simp add: step_def Let_def)

lemma gen_step: "gen (step c s t) = (\<lambda>k. gen s (k + 2 * nat (N c)))"
  by (simp add: step_def Let_def rand_snd add.assoc mult_2)

lemma X_init: "X (init c g) = map (\<lambda>k. Fin (g k * Length c)) [0..<nat (N c)]"
  by (simp add: init_def Let_def rand_def)

lemma Y_init: "Y (init c g) = map (\<lambda>k. Fin (g (k + nat (N c)) * Length c)) [0..<nat (N c)]"
  by (simp add: init_def Let_def rand_def)

lemma Xs_init: "Xs (init c g) = replicate (nat (N c)) (replicate (nat (EndTime c)) (Fin 0))"
  by (simp add: init_def Let_def rand_def)

lemma Ys_init: "Ys (init c g) = replicate (nat (N c)) (replicate (nat (EndTime c)) (Fin 0))"
  by (simp add: init_def Let_def rand_def)

lemma gen_init: "gen (init c g) = (\<lambda>k. g (k + 2 * nat (N c)))"
  by (simp add: init_def Let_def rand_def add.assoc mult_2)

lemma after_0: "after c g 0 = init c g"
  by (simp add: after_def)

lemma after_Suc: "after c g (Suc k) = step c (after c g k) k"
  by (simp add: after_def)

lemma length_X_after: "length (X (after c g k)) = nat (N c)"
  by (induction k) (simp_all add: after_0 after_Suc X_init X_step length_move_x)

lemma length_Y_after: "length (Y (after c g k)) = nat (N c)"
  by (induction k) (simp_all add: after_0 after_Suc Y_init Y_step length_move_y)

lemma length_set_column: "length (set_column t v M) = min (length M) (length v)"
  by (simp add: set_column_def)

lemma rows_set_column:
  "\<forall>row \<in> set M. length row = e \<Longrightarrow> \<forall>row \<in> set (set_column t v M). length row = e"
  by (auto simp add: set_column_def dest: set_zip_leftD)

lemma shape_Xs_after:
  "length (Xs (after c g k)) = nat (N c)
   \<and> (\<forall>row \<in> set (Xs (after c g k)). length row = nat (EndTime c))"
proof (induction k)
  case 0
  show ?case by (simp add: after_0 Xs_init)
next
  case (Suc k)
  then have "\<forall>row \<in> set (set_column k (X (step c (after c g k) k)) (Xs (after c g k))).
      length row = nat (EndTime c)"
    by (intro rows_set_column) simp
  then show ?case
    using Suc length_X_after [of c g "Suc k"]
    by (simp add: after_Suc Xs_step length_set_column)
qed

lemma shape_Ys_after:
  "length (Ys (after c g k)) = nat (N c)
   \<and> (\<forall>row \<in> set (Ys (after c g k)). length row = nat (EndTime c))"
proof (induction k)
  case 0
  show ?case by (simp add: after_0 Ys_init)
next
  case (Suc k)
  then have "\<forall>row \<in> set (set_column k (Y (step c (after c g k) k)) (Ys (after c g k))).
      length row = nat (EndTime c)"
    by (intro rows_set_column) simp
  then show ?case
    using Suc length_Y_after [of c g "Suc k"]
    by (simp add: after_Suc Ys_step length_set_column)
qed

text \<open>
  The histories hold the positions: once timestep \<open>t\<close> has run, column \<open>t\<close> of \<open>Xs\<close>
  (of \<open>Ys\<close>) is the array \<open>X\<close> (\<open>Y\<close>) as that timestep left it, and later timesteps
  do not change it.
\<close>

lemma set_column_nth:
  assumes "i < length M" "i < length v"
  shows "set_column t v M ! i = (M ! i)[t := v ! i]"
  using assms by (simp add: set_column_def)

lemma Xs_after_column:
  assumes "k \<le> nat (EndTime c)" "t < k" "i < nat (N c)"
  shows "Xs (after c g k) ! i ! t = X (after c g (Suc t)) ! i"
  using assms(1,2)
proof (induction k)
  case 0
  then show ?case by simp
next
  case (Suc k)
  have len: "length (Xs (after c g k)) = nat (N c)" "length (Xs (after c g k) ! i) = nat (EndTime c)"
    using shape_Xs_after [of c g k] assms(3) by simp_all
  have row: "Xs (after c g (Suc k)) ! i = (Xs (after c g k) ! i)[k := X (after c g (Suc k)) ! i]"
    using assms(3) len(1) length_X_after [of c g "Suc k"]
    by (simp add: after_Suc Xs_step set_column_nth)
  show ?case
  proof (cases "t = k")
    case True
    then show ?thesis
      using Suc.prems len(2) by (simp add: row)
  next
    case False
    then have "t < k" using Suc.prems by simp
    then show ?thesis
      using Suc False by (simp add: row)
  qed
qed

lemma Ys_after_column:
  assumes "k \<le> nat (EndTime c)" "t < k" "i < nat (N c)"
  shows "Ys (after c g k) ! i ! t = Y (after c g (Suc t)) ! i"
  using assms(1,2)
proof (induction k)
  case 0
  then show ?case by simp
next
  case (Suc k)
  have len: "length (Ys (after c g k)) = nat (N c)" "length (Ys (after c g k) ! i) = nat (EndTime c)"
    using shape_Ys_after [of c g k] assms(3) by simp_all
  have row: "Ys (after c g (Suc k)) ! i = (Ys (after c g k) ! i)[k := Y (after c g (Suc k)) ! i]"
    using assms(3) len(1) length_Y_after [of c g "Suc k"]
    by (simp add: after_Suc Ys_step set_column_nth)
  show ?case
  proof (cases "t = k")
    case True
    then show ?thesis
      using Suc.prems len(2) by (simp add: row)
  next
    case False
    then have "t < k" using Suc.prems by simp
    then show ?thesis
      using Suc False by (simp add: row)
  qed
qed

subsection \<open>The scale parameter\<close>

lemma Beta_nth:
  assumes "i < nat (N c)"
  shows "Beta c x y ! i =
     np_div (Fin 1)
       (np_add (np_maximum (Fin 0.001)
          (np_add (np_mul (Fin (P1 c)) (Density_In_Dist (D1 c) (nat (N c)) x y ! i))
                  (np_mul (Fin (P2 c)) (Density_In_Dist (D2 c) (nat (N c)) x y ! i))))
          (Fin (P3 c)))"
  using assms by (simp add: Beta_def length_Density_In_Dist)

text \<open>
  C1 (as the code has it). At every timestep, that is for any position arrays, and for
  every agent \<open>i\<close>, \<open>Beta\<close> equals
  \<open>1 / (max(0.001, P1*Density_In_Dist1 + P2*Density_In_Dist2) + P3)\<close>: only the density
  terms are floored at \<open>0.001\<close>, and \<open>P3\<close> is added after the floor. The second part
  reads the same formula over the reals when both densities are finite.
\<close>

theorem Beta_formula:
  assumes "i < nat (N c)"
  shows "Beta c x y ! i =
     np_div (Fin 1)
       (np_add (np_maximum (Fin 0.001)
          (np_add (np_mul (Fin (P1 c)) (Density_In_Dist (D1 c) (nat (N c)) x y ! i))
                  (np_mul (Fin (P2 c)) (Density_In_Dist (D2 c) (nat (N c)) x y ! i))))
          (Fin (P3 c)))
   \<and> (\<forall>d1 d2. Density_In_Dist (D1 c) (nat (N c)) x y ! i = Fin d1
          \<and> Density_In_Dist (D2 c) (nat (N c)) x y ! i = Fin d2
          \<longrightarrow> Beta c x y ! i =
              np_div (Fin 1) (Fin (max 0.001 (P1 c * d1 + P2 c * d2) + P3 c)))"
  using assms by (auto simp add: Beta_nth max_def)

lemma init_one:
  "init (notebook_config\<lparr>N := 1\<rparr>) (draws []) =
     \<lparr>X = [Fin 25], Y = [Fin 25], Xs = [replicate 300 (Fin 0)], Ys = [replicate 300 (Fin 0)],
      gen = (\<lambda>k. draws [] (k + 2))\<rparr>"
  by (simp add: init_def notebook_config_def rand_def draws_def)

lemma Density_one:
  assumes "0 < D"
  shows "Density_In_Dist D (Suc 0) [Fin a] [Fin b] = [Fin 0]"
  using assms
  by (simp add: Density_In_Dist_def sum_axis0_def Nr_In_Dist_def dist_matrix_def Diagonal_def np_sub_def)

lemma Beta_one:
  assumes "N c = 1" "0 < D1 c" "0 < D2 c"
  shows "Beta c [Fin a] [Fin b] = [np_div (Fin 1) (Fin (1 / 1000 + P3 c))]"
  using assms by (simp add: Beta_def Density_one)

theorem Beta_formula_counterexample:
  "Beta (notebook_config\<lparr>N := 1\<rparr>)
        (X (init (notebook_config\<lparr>N := 1\<rparr>) (draws [])))
        (Y (init (notebook_config\<lparr>N := 1\<rparr>) (draws []))) ! 0
   \<noteq> Beta_spec (notebook_config\<lparr>N := 1\<rparr>)
        (X (init (notebook_config\<lparr>N := 1\<rparr>) (draws [])))
        (Y (init (notebook_config\<lparr>N := 1\<rparr>) (draws []))) ! 0"
  unfolding init_one
  by (simp add: Beta_def Beta_spec_def Density_one notebook_config_def)

theorem Beta_formula_witness:
  "Beta (notebook_config\<lparr>N := 1\<rparr>) [Fin 25] [Fin 25] ! 0 = Fin (1000 / 3001)"
  using Beta_formula [of 0 "notebook_config\<lparr>N := 1\<rparr>" "[Fin 25]" "[Fin 25]"]
  by (simp add: Density_one notebook_config_def)

subsection \<open>The boundary condition\<close>

lemma boundary_Fin:
  "boundary L (Fin x) = Fin (x + L * of_bool (x < 0) - L * of_bool (L < x))"
  by (simp add: boundary_def np_sub_def)

lemma boundary_range:
  assumes "0 \<le> L" "- L \<le> x" "x \<le> 2 * L"
  shows "\<exists>r. boundary L (Fin x) = Fin r \<and> 0 \<le> r \<and> r \<le> L"
  using assms by (auto simp add: boundary_Fin)

text \<open>
  C5. The boundary correction is a function of one coordinate and \<open>Length\<close> alone. For a
  domain side \<open>Length \<ge> 0\<close> it maps \<open>x\<close> to \<open>x + Length\<close> when \<open>x < 0\<close>, to
  \<open>x - Length\<close> when \<open>x > Length\<close>, and leaves \<open>x\<close> unchanged otherwise; for
  \<open>Length = 50\<close> it maps \<open>-0.5\<close> to \<open>49.5\<close> and \<open>55\<close> to \<open>5\<close>.
\<close>

theorem boundary_correction:
  assumes "0 \<le> L"
  shows "boundary L (Fin x) = Fin (if x < 0 then x + L else if L < x then x - L else x)
       \<and> boundary 50 (Fin (- 0.5)) = Fin 49.5
       \<and> boundary 50 (Fin 55) = Fin 5"
  using assms by (simp add: boundary_Fin)

theorem boundary_correction_witness:
  "(0::real) \<le> 50 \<and> boundary 50 (Fin (- 60)) = Fin (- 10) \<and> boundary 50 (Fin 20) = Fin 20
   \<and> boundary 50 (Fin 120) = Fin 70"
  using boundary_correction [of 50 "- 60"] boundary_correction [of 50 20]
    boundary_correction [of 50 120] by simp

text \<open>
  C9. The comparisons of the boundary correction are strict, so (for \<open>Length \<ge> 0\<close>) a
  coordinate equal to \<open>0\<close> or to \<open>Length\<close> is left unchanged; a coordinate that is in
  \<open>[-Length, 2*Length]\<close> before the correction is in the closed interval \<open>[0, Length]\<close>
  after it; and \<open>Length\<close> itself, which is outside \<open>[0, Length)\<close>, is a value the
  correction returns (from \<open>Length\<close> and from \<open>2*Length\<close>).
\<close>

theorem boundary_closed_interval:
  assumes "0 \<le> L"
  shows "boundary L (Fin 0) = Fin 0 \<and> boundary L (Fin L) = Fin L
       \<and> (- L \<le> x \<and> x \<le> 2 * L \<longrightarrow>
            (\<exists>r. boundary L (Fin x) = Fin r \<and> 0 \<le> r \<and> r \<le> L))
       \<and> boundary L (Fin (2 * L)) = Fin L"
  using assms by (auto simp add: boundary_Fin)

theorem boundary_closed_interval_witness:
  "(0::real) \<le> 50 \<and> boundary 50 (Fin 0) = Fin 0 \<and> boundary 50 (Fin 50) = Fin 50
   \<and> boundary 50 (Fin 100) = Fin 50
   \<and> (\<exists>r. boundary 50 (Fin (- 50)) = Fin r \<and> 0 \<le> r \<and> r \<le> 50)"
  using boundary_closed_interval [of 50 "- 50"] by simp

subsection \<open>A single agent\<close>

lemma step_one_finite:
  assumes "N c = 1" "0 < D1 c" "0 < D2 c" "P3 c \<noteq> - 1 / 1000" "\<forall>k. 0 < gen s k"
    and "X s = [Fin a]" "Y s = [Fin b]"
  shows "\<exists>a' b'. X (step c s t) = [Fin a'] \<and> Y (step c s t) = [Fin b']"
proof -
  have nz: "1 / 1000 + P3 c \<noteq> 0"
    using assms(4) by auto
  have pos: "0 < gen s 0" "0 < gen s (Suc 0)"
    using assms(5) by simp_all
  have B: "Beta c (X s) (Y s) = [Fin (1 / (1 / 1000 + P3 c))]"
    using assms nz by (simp add: Beta_one)
  have S: "\<exists>q. Stepsize c s = [Fin q]"
    using assms(1) pos by (simp add: Stepsize_def B rand_fst np_log_def)
  have A: "\<exists>r. Angle c s = [r]"
    using assms(1) by (simp add: Angle_def rand_fst)
  from S A have "\<exists>d. move_x c s = [Fin d]" "\<exists>d. move_y c s = [Fin d]"
    by (auto simp add: move_x_def move_y_def)
  then show ?thesis
    using assms(6,7) by (auto simp add: X_step Y_step boundary_Fin)
qed

lemma gen_after: "gen (after c g k) = (\<lambda>j. g (j + 2 * nat (N c) * (k + 1)))"
proof (induction k)
  case 0
  show ?case by (simp add: after_0 gen_init)
next
  case (Suc k)
  show ?case
    by (simp add: after_Suc gen_step Suc algebra_simps)
qed

text \<open>
  C2 (as the code has it). In a run with \<open>N = 1\<close>, radii \<open>D1, D2 > 0\<close>,
  \<open>P3 \<noteq> -0.001\<close> and no random draw equal to zero, the agent's position is finite at
  every timestep, both local densities are zero, and \<open>Beta\<close> is \<open>1 / (0.001 + P3)\<close>:
  the floor \<open>0.001\<close> of the density terms stays in the denominator.
\<close>

theorem single_agent_Beta:
  assumes "N c = 1" "0 < D1 c" "0 < D2 c" "P3 c \<noteq> - 1 / 1000" "\<forall>j. 0 < g j"
  shows "\<exists>a b. X (after c g k) = [Fin a] \<and> Y (after c g k) = [Fin b]
       \<and> Density_In_Dist (D1 c) (nat (N c)) (X (after c g k)) (Y (after c g k)) = [Fin 0]
       \<and> Density_In_Dist (D2 c) (nat (N c)) (X (after c g k)) (Y (after c g k)) = [Fin 0]
       \<and> Beta c (X (after c g k)) (Y (after c g k)) = [Fin (1 / (1 / 1000 + P3 c))]"
proof -
  have fin: "\<exists>a b. X (after c g k) = [Fin a] \<and> Y (after c g k) = [Fin b]"
  proof (induction k)
    case 0
    show ?case using assms(1) by (simp add: after_0 X_init Y_init)
  next
    case (Suc k)
    then obtain a b where "X (after c g k) = [Fin a]" "Y (after c g k) = [Fin b]"
      by blast
    moreover have "\<forall>j. 0 < gen (after c g k) j"
      using assms(5) by (simp add: gen_after)
    ultimately show ?case
      using assms(1-4) step_one_finite [of c "after c g k" a b k] by (simp add: after_Suc)
  qed
  have "1 / 1000 + P3 c \<noteq> 0"
    using assms(4) by auto
  then show ?thesis
    using fin assms(1-3) by (auto simp add: Density_one Beta_one)
qed

theorem single_agent_Beta_counterexample:
  "Beta (notebook_config\<lparr>N := 1\<rparr>)
        (X (init (notebook_config\<lparr>N := 1\<rparr>) (draws [])))
        (Y (init (notebook_config\<lparr>N := 1\<rparr>) (draws [])))
     = [Fin (1000 / 3001)]
   \<and> Fin (1000 / 3001) \<noteq> Fin (1 / P3 (notebook_config\<lparr>N := 1\<rparr>))"
  unfolding init_one
  by (simp add: Beta_def Density_one notebook_config_def)

theorem single_agent_Beta_witness:
  "N (notebook_config\<lparr>N := 1\<rparr>) = 1 \<and> 0 < D1 (notebook_config\<lparr>N := 1\<rparr>)
   \<and> 0 < D2 (notebook_config\<lparr>N := 1\<rparr>) \<and> P3 (notebook_config\<lparr>N := 1\<rparr>) \<noteq> - 1 / 1000
   \<and> (\<forall>j. 0 < draws [] j)
   \<and> Beta (notebook_config\<lparr>N := 1\<rparr>)
        (X (after (notebook_config\<lparr>N := 1\<rparr>) (draws []) 7))
        (Y (after (notebook_config\<lparr>N := 1\<rparr>) (draws []) 7)) = [Fin (1000 / 3001)]"
  using single_agent_Beta [of "notebook_config\<lparr>N := 1\<rparr>" "draws []" 7]
  by (simp add: notebook_config_def draws_def)

subsection \<open>When the loop raises\<close>

lemma loop_foldl:
  assumes "\<not> pow2_overflows (D1 c)" "\<not> pow2_overflows (D2 c)"
  shows "loop c s ts = Inr (foldl (step c) s ts)"
  using assms by (induction ts arbitrary: s) (simp_all add: body_def)


lemma run_after:
  assumes "0 \<le> N c" "0 \<le> EndTime c" "\<not> pow2_overflows (D1 c)" "\<not> pow2_overflows (D2 c)"
  shows "run c g = Inr (after c g (nat (EndTime c)))"
  using assms by (simp add: run_def after_def loop_foldl)


lemma small_radius_no_overflow:
  assumes "\<bar>D\<bar> \<le> 2 ^ 500"
  shows "\<not> pow2_overflows D"
proof -
  have "D\<^sup>2 = \<bar>D\<bar>\<^sup>2" by simp
  also have "\<dots> \<le> (2 ^ 500)\<^sup>2"
    using assms by (intro power_mono) simp_all
  also have "\<dots> = (2::real) ^ 1000"
    by (simp add: power_mult [symmetric])
  finally have le: "D\<^sup>2 \<le> 2 ^ 1000" .
  have "(2::real) ^ 1000 + 2 ^ 970 \<le> 2 ^ 1000 + 2 ^ 1000"
    by (intro add_mono power_increasing) simp_all
  also have "\<dots> = 2 ^ 1001" by simp
  also have "\<dots> < (2::real) ^ 1024"
    by (intro power_strict_increasing) simp_all
  finally have "(2::real) ^ 1000 < 2 ^ 1024 - 2 ^ 970" by simp
  with le show ?thesis
    by (simp add: pow2_overflows_def)
qed


subsection \<open>Concrete runs of one agent\<close>


lemma Density_zero_radius: "Density_In_Dist 0 (Suc 0) [Fin a] [Fin b] = [NInf]"
  by (simp add: Density_In_Dist_def sum_axis0_def Nr_In_Dist_def dist_matrix_def Diagonal_def
      np_sub_def signed_inf_def)

lemma Beta_zero_radius:
  assumes "N c = 1" "D1 c = 0" "0 < D2 c" "0 < P1 c"
  shows "Beta c [Fin a] [Fin b] = [np_div (Fin 1) (Fin (1 / 1000 + P3 c))]"
  using assms by (simp add: Beta_def Density_one Density_zero_radius signed_inf_def)

lemma Stepsize_one:
  assumes "N c = 1" "Beta c (X s) (Y s) = [Fin \<beta>]" "0 < gen s 0"
  shows "Stepsize c s = [Fin (- \<beta> * ln (gen s 0))]"
  using assms by (simp add: Stepsize_def rand_fst np_log_def)

lemma Angle_one:
  assumes "N c = 1"
  shows "Angle c s = [gen s (Suc 0) * 360]"
  using assms by (simp add: Angle_def rand_fst rand_snd)

lemma step_one:
  assumes "X s = [Fin a]" "Y s = [Fin b]" "Stepsize c s = [Fin q]" "Angle c s = [ang]"
  shows "X (step c s t) = [boundary (Length c) (Fin (a + sin (ang / 180 * pi) * q))]"
    and "Y (step c s t) = [boundary (Length c) (Fin (b + cos (ang / 180 * pi) * q))]"
  using assms by (simp_all add: X_step Y_step move_x_def move_y_def)

lemma small_config_simps:
  "N small_config = 1" "Length small_config = 10" "EndTime small_config = 2"
  "P1 small_config = 100" "P2 small_config = - 80"
  "P3 small_config = 999 / 1000" "D1 small_config = 2" "D2 small_config = 6"
  by (simp_all add: small_config_def notebook_config_def)

lemma ln_half: "ln (1 / 2 :: real) = - ln 2"
  by (simp add: ln_div)

lemma ln_2_bounds: "1 / 2 \<le> ln (2::real)" "ln (2::real) < 2"
proof -
  have "ln (1 / 2 :: real) \<le> 1 / 2 - 1"
    by (rule ln_le_minus_one) simp
  then show "1 / 2 \<le> ln (2::real)"
    by (simp add: ln_half)
  show "ln (2::real) < 2"
    by simp
qed

text \<open>
  One iteration for one agent whose \<open>Beta\<close> is \<open>\<beta>\<close>, when the generator returns
  \<open>0.5\<close> for the step size and \<open>0.5\<close> for the angle (180 degrees): the agent moves by
  \<open>\<beta>\<cdot>ln 2\<close> against the \<open>y\<close> axis.
\<close>

lemma half_step:
  assumes "N c = 1" "X s = [Fin a]" "Y s = [Fin b]" "Beta c [Fin a] [Fin b] = [Fin \<beta>]"
    and "gen s 0 = 1 / 2" "gen s (Suc 0) = 1 / 2"
  shows "Stepsize c s = [Fin (\<beta> * ln 2)]"
    and "X (step c s t) = [boundary (Length c) (Fin a)]"
    and "Y (step c s t) = [boundary (Length c) (Fin (b - \<beta> * ln 2))]"
proof -
  show S: "Stepsize c s = [Fin (\<beta> * ln 2)]"
    using Stepsize_one [of c s \<beta>] assms by (simp add: ln_half)
  have A: "Angle c s = [180]"
    using assms(1,6) by (simp add: Angle_one)
  show "X (step c s t) = [boundary (Length c) (Fin a)]"
    using step_one(1) [OF assms(2,3) S A] by simp
  show "Y (step c s t) = [boundary (Length c) (Fin (b - \<beta> * ln 2))]"
    using step_one(2) [OF assms(2,3) S A] by simp
qed

lemma gen_after_draws_nil: "gen (after c (draws []) k) j = 1 / 2"
  by (simp add: gen_after draws_def)

text \<open>
  Two timesteps of one agent with radius \<open>D1 = 0\<close>, in a domain of side \<open>10\<close> and of
  side \<open>-10\<close>, every draw being \<open>0.5\<close>.
\<close>

lemma zero_radius_run:
  "X (after (small_config\<lparr>D1 := 0\<rparr>) (draws []) 2) = [Fin 5]"
  "Y (after (small_config\<lparr>D1 := 0\<rparr>) (draws []) 2) = [Fin (5 - 2 * ln 2)]"
proof -
  let ?c = "small_config\<lparr>D1 := 0\<rparr>"
  let ?s = "\<lambda>k. after ?c (draws []) k"
  have c: "N ?c = 1" "Length ?c = 10"
    by (simp_all add: small_config_simps)
  have B: "Beta ?c [Fin a] [Fin b] = [Fin 1]" for a b
    using Beta_zero_radius [of ?c a b] by (simp add: small_config_simps)
  have g: "gen (?s k) 0 = 1 / 2" "gen (?s k) (Suc 0) = 1 / 2" for k
    by (simp_all add: gen_after_draws_nil)
  have s0: "X (?s 0) = [Fin 5]" "Y (?s 0) = [Fin 5]"
    by (simp_all add: after_0 X_init Y_init small_config_simps draws_def)
  have s1: "X (?s (Suc 0)) = [Fin 5]" "Y (?s (Suc 0)) = [Fin (5 - ln 2)]"
    unfolding after_Suc
    using half_step(2,3) [OF c(1) s0 B g] ln_2_bounds by (simp_all add: c(2) boundary_Fin)
  have s2: "X (?s (Suc (Suc 0))) = [Fin 5]" "Y (?s (Suc (Suc 0))) = [Fin (5 - 2 * ln 2)]"
    unfolding after_Suc [of _ _ "Suc 0"]
    using half_step(2,3) [OF c(1) s1 B g] ln_2_bounds by (simp_all add: c(2) boundary_Fin)
  show "X (?s 2) = [Fin 5]" "Y (?s 2) = [Fin (5 - 2 * ln 2)]"
    using s2 by (simp_all add: numeral_2_eq_2)
qed

lemma negative_length_run:
  "X (after (small_config\<lparr>Length := - 10, D1 := 0\<rparr>) (draws []) 2) = [Fin (- 5)]"
  "Y (after (small_config\<lparr>Length := - 10, D1 := 0\<rparr>) (draws []) 2) = [Fin (- 5 - 2 * ln 2)]"
proof -
  let ?c = "small_config\<lparr>Length := - 10, D1 := 0\<rparr>"
  let ?s = "\<lambda>k. after ?c (draws []) k"
  have c: "N ?c = 1" "Length ?c = - 10"
    by (simp_all add: small_config_simps)
  have B: "Beta ?c [Fin a] [Fin b] = [Fin 1]" for a b
    using Beta_zero_radius [of ?c a b] by (simp add: small_config_simps)
  have g: "gen (?s k) 0 = 1 / 2" "gen (?s k) (Suc 0) = 1 / 2" for k
    by (simp_all add: gen_after_draws_nil)
  have s0: "X (?s 0) = [Fin (- 5)]" "Y (?s 0) = [Fin (- 5)]"
    by (simp_all add: after_0 X_init Y_init small_config_simps draws_def)
  have s1: "X (?s (Suc 0)) = [Fin (- 5)]" "Y (?s (Suc 0)) = [Fin (- 5 - ln 2)]"
    unfolding after_Suc
    using half_step(2,3) [OF c(1) s0 B g] ln_2_bounds by (simp_all add: c(2) boundary_Fin)
  have s2: "X (?s (Suc (Suc 0))) = [Fin (- 5)]" "Y (?s (Suc (Suc 0))) = [Fin (- 5 - 2 * ln 2)]"
    unfolding after_Suc [of _ _ "Suc 0"]
    using half_step(2,3) [OF c(1) s1 B g] ln_2_bounds by (simp_all add: c(2) boundary_Fin)
  show "X (?s 2) = [Fin (- 5)]" "Y (?s 2) = [Fin (- 5 - 2 * ln 2)]"
    using s2 by (simp_all add: numeral_2_eq_2)
qed

subsection \<open>No validation of the parameters\<close>

text \<open>
  C3 (as the code has it). The engine validates nothing: a configuration with \<open>N = 0\<close>,
  \<open>D1 \<le> 0\<close>, \<open>D2 \<le> 0\<close> or \<open>Length \<le> 0\<close> is not rejected. Whenever \<open>N \<ge> 0\<close>,
  \<open>EndTime \<ge> 0\<close> and neither \<open>D1**2\<close> nor \<open>D2**2\<close> overflows, the run reports no error,
  runs all its timesteps and returns histories of \<open>N\<close> rows and \<open>EndTime\<close> columns.
\<close>

theorem run_without_validation:
  assumes "0 \<le> N c" "0 \<le> EndTime c" "\<not> pow2_overflows (D1 c)" "\<not> pow2_overflows (D2 c)"
  shows "run c g = Inr (after c g (nat (EndTime c)))
       \<and> length (Xs (after c g (nat (EndTime c)))) = nat (N c)
       \<and> (\<forall>row \<in> set (Xs (after c g (nat (EndTime c)))). length row = nat (EndTime c))
       \<and> length (Ys (after c g (nat (EndTime c)))) = nat (N c)
       \<and> (\<forall>row \<in> set (Ys (after c g (nat (EndTime c)))). length row = nat (EndTime c))"
  using run_after [OF assms]
    shape_Xs_after [of c g "nat (EndTime c)"] shape_Ys_after [of c g "nat (EndTime c)"]
  by simp

theorem run_without_validation_counterexample:
  "run (small_config\<lparr>Length := - 10, D1 := 0\<rparr>) (draws [])
     = Inr (after (small_config\<lparr>Length := - 10, D1 := 0\<rparr>) (draws []) 2)
 \<and> Density_In_Dist 0 1
       (X (init (small_config\<lparr>Length := - 10, D1 := 0\<rparr>) (draws [])))
       (Y (init (small_config\<lparr>Length := - 10, D1 := 0\<rparr>) (draws []))) = [NInf]
 \<and> X (after (small_config\<lparr>Length := - 10, D1 := 0\<rparr>) (draws []) 2) = [Fin (- 5)]
 \<and> Y (after (small_config\<lparr>Length := - 10, D1 := 0\<rparr>) (draws []) 2) = [Fin (- 5 - 2 * ln 2)]
 \<and> run (small_config\<lparr>N := 0\<rparr>) (draws []) = Inr (after (small_config\<lparr>N := 0\<rparr>) (draws []) 2)
 \<and> run (small_config\<lparr>D2 := - 1\<rparr>) (draws []) = Inr (after (small_config\<lparr>D2 := - 1\<rparr>) (draws []) 2)"
proof -
  let ?c = "small_config\<lparr>Length := - 10, D1 := 0\<rparr>"
  have "run ?c (draws []) = Inr (after ?c (draws []) 2)"
    using run_after [of ?c "draws []"]
    by (simp add: small_config_simps small_radius_no_overflow)
  moreover have "Density_In_Dist 0 1 (X (init ?c (draws []))) (Y (init ?c (draws []))) = [NInf]"
    by (simp add: X_init Y_init small_config_simps Density_zero_radius)
  moreover have "run (small_config\<lparr>N := 0\<rparr>) (draws [])
      = Inr (after (small_config\<lparr>N := 0\<rparr>) (draws []) 2)"
    using run_after [of "small_config\<lparr>N := 0\<rparr>" "draws []"]
    by (simp add: small_config_simps small_radius_no_overflow)
  moreover have "run (small_config\<lparr>D2 := - 1\<rparr>) (draws [])
      = Inr (after (small_config\<lparr>D2 := - 1\<rparr>) (draws []) 2)"
    using run_after [of "small_config\<lparr>D2 := - 1\<rparr>" "draws []"]
    by (simp add: small_config_simps small_radius_no_overflow)
  ultimately show ?thesis
    using negative_length_run by simp
qed

theorem run_without_validation_witness:
  "0 \<le> N (small_config\<lparr>D1 := 0\<rparr>) \<and> 0 \<le> EndTime (small_config\<lparr>D1 := 0\<rparr>)
 \<and> \<not> pow2_overflows (D1 (small_config\<lparr>D1 := 0\<rparr>))
 \<and> \<not> pow2_overflows (D2 (small_config\<lparr>D1 := 0\<rparr>))
 \<and> run (small_config\<lparr>D1 := 0\<rparr>) (draws []) = Inr (after (small_config\<lparr>D1 := 0\<rparr>) (draws []) 2)
 \<and> length (Xs (after (small_config\<lparr>D1 := 0\<rparr>) (draws []) 2)) = 1
 \<and> X (after (small_config\<lparr>D1 := 0\<rparr>) (draws []) 2) = [Fin 5]
 \<and> Y (after (small_config\<lparr>D1 := 0\<rparr>) (draws []) 2) = [Fin (5 - 2 * ln 2)]"
proof -
  let ?c = "small_config\<lparr>D1 := 0\<rparr>"
  have h: "0 \<le> N ?c" "0 \<le> EndTime ?c" "\<not> pow2_overflows (D1 ?c)" "\<not> pow2_overflows (D2 ?c)"
    by (simp_all add: small_config_simps small_radius_no_overflow)
  show ?thesis
    using h run_without_validation [OF h, of "draws []"] zero_radius_run
    by (simp add: small_config_simps)
qed

subsection \<open>A radius that is not positive\<close>




subsection \<open>Coordinates stay in the domain\<close>














end
